theory Spec2Isabelle
  imports Main "HOL-Library.Sublist" "HOL-Library.Word"
begin

section \<open>Strings of the worker\<close>

text \<open>
  A JavaScript string is a sequence of UTF-16 code units. The development reads an
  Isabelle \<^typ>\<open>string\<close> as such a sequence with every code unit in the range
  U+0000 .. U+00FF (Basic Latin and Latin-1 Supplement): \<^term>\<open>of_char c\<close> is the code
  unit. The built-ins of the runtime that \<open>src/index.ts\<close> calls are modelled on that
  range after ECMA-262 and the WHATWG Encoding and HTML standards.
\<close>

subsection \<open>Built-ins used by \<open>normalizeText\<close> and \<open>fuzzyMatch\<close>\<close>

text \<open>
  \<open>String.prototype.toLowerCase\<close>: within U+0000 .. U+00FF the Unicode lower-case
  mapping moves A .. Z (0x41 .. 0x5A) and the Latin-1 capitals 0xC0 .. 0xDE, except the
  multiplication sign 0xD7, up by 0x20 and leaves every other code unit alone.
\<close>

definition lowerChar :: "char \<Rightarrow> char" where
  "lowerChar c =
     (let n = (of_char c :: nat)
      in if (65 \<le> n \<and> n \<le> 90) \<or> (192 \<le> n \<and> n \<le> 222 \<and> n \<noteq> 215)
         then char_of (n + 32) else c)"

definition toLowerCase :: "string \<Rightarrow> string" where
  "toLowerCase s = map lowerChar s"

text \<open>
  The code units that \<open>trim\<close> strips and the regular expression class \<open>\s\<close> matches
  (ECMA-262 WhiteSpace and LineTerminator) below U+0100: TAB, LF, VT, FF, CR, SPACE and
  NO-BREAK SPACE.
\<close>

definition isWhiteSpace :: "char \<Rightarrow> bool" where
  "isWhiteSpace c = ((of_char c :: nat) \<in> {9, 10, 11, 12, 13, 32, 160})"

text \<open>\<open>String.prototype.trim\<close>: strips the white space at both ends.\<close>

definition trim :: "string \<Rightarrow> string" where
  "trim s = rev (dropWhile isWhiteSpace (rev (dropWhile isWhiteSpace s)))"

text \<open>
  \<open>s.replace(/\s+/g, " ")\<close>: scanning from the left, every maximal run of white space is
  replaced by one space; the scan goes on after the run.
\<close>

function replaceWhiteSpaceRuns :: "string \<Rightarrow> string" where
  "replaceWhiteSpaceRuns [] = []"
| "replaceWhiteSpaceRuns (c # cs) =
     (if isWhiteSpace c then CHR '' '' # replaceWhiteSpaceRuns (dropWhile isWhiteSpace cs)
      else c # replaceWhiteSpaceRuns cs)"
  by pat_completeness auto
termination
  by (relation "measure length") (auto simp: length_dropWhile_le less_Suc_eq_le)

text \<open>
  \<open>hay.includes(needle)\<close>: some position of \<open>hay\<close> starts an occurrence of \<open>needle\<close>;
  the empty needle occurs in every string.
\<close>

fun str_includes :: "string \<Rightarrow> string \<Rightarrow> bool" where
  "str_includes [] needle = (needle = [])"
| "str_includes (h # hs) needle = (prefix needle (h # hs) \<or> str_includes hs needle)"

subsection \<open>Helpers of \<open>src/index.ts\<close>\<close>

definition normalizeText :: "string \<Rightarrow> string" where
  "normalizeText text = replaceWhiteSpaceRuns (trim (toLowerCase text))"

definition fuzzyMatch :: "string \<Rightarrow> string \<Rightarrow> bool" where
  "fuzzyMatch a b =
     (let normA = normalizeText a; normB = normalizeText b
      in normA = normB \<or> str_includes normA normB \<or> str_includes normB normA)"

text \<open>\<open>extractGuid\<close>: the identifier is a plain string or an object with a \<open>#text\<close> field.\<close>

datatype guid_value = GuidString string | GuidObject string

fun extractGuid :: "guid_value \<Rightarrow> string" where
  "extractGuid (GuidString s) = s"
| "extractGuid (GuidObject text) = text"

subsection \<open>Exceptions and the engine\<close>

text \<open>
  A thrown value is an \<open>Error\<close> with its message, or something that is not an \<open>Error\<close>.
  A function that may throw returns \<open>Inl\<close> of the thrown value.
\<close>

datatype exception = Error (message: string) | NotAnError

text \<open>
  What the program takes from the engine it runs on. The numbers of the engine are a
  type \<open>'n\<close>, and \<open>numberToString\<close> is the rendering of a number in a template literal
  (\<open>Number::toString\<close> of ECMA-262: decimal for an integer below \<open>10^21\<close>, with a fraction
  or an exponent otherwise). A call accepts at most \<open>maxArguments\<close> arguments; a spread
  call with more throws a \<open>RangeError\<close>, an \<open>Error\<close> whose message is
  \<open>rangeErrorMessage\<close>.
\<close>

record 'n engine =
  numberToString :: "'n \<Rightarrow> string"
  maxArguments :: nat
  rangeErrorMessage :: string

subsection \<open>Built-ins used by \<open>toUrlSafeBase64\<close>\<close>

text \<open>
  \<open>TextEncoder.encode\<close>: the UTF-8 bytes, as a \<open>Uint8Array\<close>. A code unit below 0x80
  is one byte; one in 0x80 .. 0xFF is the two bytes \<open>110000xx 10xxxxxx\<close>.
\<close>

definition utf8_unit :: "char \<Rightarrow> 8 word list" where
  "utf8_unit c =
     (let n = (of_char c :: nat)
      in if n < 128 then [of_nat n] else [of_nat (192 + n div 64), of_nat (128 + n mod 64)])"

definition TextEncoder_encode :: "string \<Rightarrow> 8 word list" where
  "TextEncoder_encode input = concat (map utf8_unit input)"

text \<open>
  \<open>String.fromCharCode(...data)\<close>: the spread passes one argument per byte, so the call
  throws when there are more bytes than a call accepts arguments; otherwise the result
  has one code unit per byte.
\<close>

definition fromCharCode :: "'n engine \<Rightarrow> 8 word list \<Rightarrow> exception + string" where
  "fromCharCode e data =
     (if maxArguments e < length data then Inl (Error (rangeErrorMessage e))
      else Inr (map (\<lambda>b. char_of (unat b)) data))"

text \<open>
  Base64 of RFC 4648 with padding: three bytes give four characters of the alphabet, a
  last group of one or two bytes is filled with zero bits and \<open>=\<close>.
\<close>

definition base64_alphabet :: string where
  "base64_alphabet = ''ABCDEFGHIJKLMNOPQRSTUVWXYZabcdefghijklmnopqrstuvwxyz0123456789+/''"

definition sextet :: "nat \<Rightarrow> char" where
  "sextet i = base64_alphabet ! i"

fun base64_encode :: "8 word list \<Rightarrow> string" where
  "base64_encode [] = []"
| "base64_encode [a] =
     [sextet (unat a div 4), sextet (unat a mod 4 * 16), CHR ''='', CHR ''='']"
| "base64_encode [a, b] =
     [sextet (unat a div 4), sextet (unat a mod 4 * 16 + unat b div 16),
      sextet (unat b mod 16 * 4), CHR ''='']"
| "base64_encode (a # b # c # bytes) =
     [sextet (unat a div 4), sextet (unat a mod 4 * 16 + unat b div 16),
      sextet (unat b mod 16 * 4 + unat c div 64), sextet (unat c mod 64)]
     @ base64_encode bytes"

text \<open>
  \<open>btoa\<close>: base64 of the bytes that the code units of a binary string are. (It throws on
  a code unit above 0xFF; a \<^typ>\<open>char\<close> has none.)
\<close>

definition btoa :: "string \<Rightarrow> string" where
  "btoa binaryString = base64_encode (map (\<lambda>c. of_nat (of_char c)) binaryString)"

text \<open>\<open>s.replace(/x/g, "y")\<close> for single characters \<open>x\<close> and \<open>y\<close>.\<close>

definition replaceAllChar :: "char \<Rightarrow> char \<Rightarrow> string \<Rightarrow> string" where
  "replaceAllChar x y s = map (\<lambda>c. if c = x then y else c) s"

text \<open>
  \<open>s.replace(/=+$/, "")\<close>: the first match is removed. A match starts at the leftmost
  position from which only \<open>=\<close> follows up to the end of the string.
\<close>

fun replaceTrailingEquals :: "string \<Rightarrow> string" where
  "replaceTrailingEquals [] = []"
| "replaceTrailingEquals (c # cs) =
     (if c = CHR ''='' \<and> list_all (\<lambda>d. d = CHR ''='') cs then []
      else c # replaceTrailingEquals cs)"

definition toUrlSafeBase64 :: "'n engine \<Rightarrow> string \<Rightarrow> exception + string" where
  "toUrlSafeBase64 e input =
     (let data = TextEncoder_encode input
      in case fromCharCode e data of
           Inl thrown \<Rightarrow> Inl thrown
         | Inr binaryString \<Rightarrow>
             (let base64 = btoa binaryString
              in Inr (replaceTrailingEquals
                        (replaceAllChar (CHR ''/'') (CHR ''_'')
                           (replaceAllChar (CHR ''+'') (CHR ''-'') base64)))))"

text \<open>
  The encoder in the words of the specification: the standard base64 of the UTF-8 bytes,
  \<open>+\<close> to \<open>-\<close>, \<open>/\<close> to \<open>_\<close>, and the trailing \<open>=\<close> padding stripped. UTF-8 is that of
  RFC 3629, for every code point: one to four bytes by the size of the code point.
\<close>

definition utf8_code_point :: "nat \<Rightarrow> 8 word list" where
  "utf8_code_point u =
     (if u < 0x80 then [of_nat u]
      else if u < 0x800 then [of_nat (0xC0 + u div 0x40), of_nat (0x80 + u mod 0x40)]
      else if u < 0x10000 then
        [of_nat (0xE0 + u div 0x1000), of_nat (0x80 + u div 0x40 mod 0x40),
         of_nat (0x80 + u mod 0x40)]
      else
        [of_nat (0xF0 + u div 0x40000), of_nat (0x80 + u div 0x1000 mod 0x40),
         of_nat (0x80 + u div 0x40 mod 0x40), of_nat (0x80 + u mod 0x40)])"

definition utf8_bytes :: "string \<Rightarrow> 8 word list" where
  "utf8_bytes s = concat (map (\<lambda>c. utf8_code_point (of_char c)) s)"

definition encode_spec :: "string \<Rightarrow> string" where
  "encode_spec identifier =
     rev (dropWhile (\<lambda>c. c = CHR ''='')
       (rev (map (\<lambda>c. if c = CHR ''+'' then CHR ''-'' else if c = CHR ''/'' then CHR ''_'' else c)
          (base64_encode (utf8_bytes identifier)))))"

definition url_safe_alphabet :: string where
  "url_safe_alphabet = ''ABCDEFGHIJKLMNOPQRSTUVWXYZabcdefghijklmnopqrstuvwxyz0123456789_-''"

text \<open>
  A template literal renders an HTTP status, an integer of three digits, in decimal.
\<close>

function natToString :: "nat \<Rightarrow> string" where
  "natToString n =
     (if n < 10 then [''0123456789'' ! n]
      else natToString (n div 10) @ [''0123456789'' ! (n mod 10)])"
  by pat_completeness auto
termination
  by (relation "measure id") auto

section \<open>Data model\<close>

text \<open>
  The interfaces of \<open>src/index.ts\<close>. \<open>collectionId\<close> is a number of the engine. \<open>feedUrl\<close>
  is declared a string, but the handler tests it for presence, so it is optional here. A channel's \<open>item\<close> is absent, one entry
  or an array of entries; the parsed document may lack \<open>rss\<close> or \<open>channel\<close>.
\<close>

record 'n ApplePodcastResult =
  collectionId :: 'n
  collectionName :: string
  feedUrl :: "string option"

record 'n AppleSearchResponse =
  resultCount :: int
  results :: "'n ApplePodcastResult list"

record RSSItem =
  title :: string
  guid :: guid_value

datatype item_value = NoItem | SingleItem RSSItem | ItemArray "RSSItem list"

datatype RSSChannel = RSSChannel (channel_title: string) (item: item_value)

datatype rss_value = Rss (channel: "RSSChannel option")

datatype RSSFeed = RSSFeed (rss: "rss_value option")

subsection \<open>The network\<close>

text \<open>
  What \<open>await fetch(url)\<close> gives: it rejects, or it resolves to a response with a status;
  reading and parsing the body (\<open>response.json()\<close>, or \<open>response.text()\<close> and the XML
  parser) throws or yields the parsed value. \<open>response.ok\<close> is a status in 200 .. 299.
\<close>

datatype 'a http_response = HttpResponse (status: nat) (body: "exception + 'a")

definition ok :: "'a http_response \<Rightarrow> bool" where
  "ok response = (200 \<le> status response \<and> status response \<le> 299)"

text \<open>
  The two servers the worker talks to: the directory, asked with the search URL built
  from a show name, and the feed servers, asked with a feed URL.
\<close>

record 'n network =
  directory :: "string \<Rightarrow> exception + 'n AppleSearchResponse http_response"
  feeds :: "string \<Rightarrow> exception + RSSFeed http_response"

section \<open>Directory search\<close>

text \<open>
  \<open>searchApplePodcasts\<close> in two parts: \<open>selectPodcast\<close> is its lines 112 to 131, the
  selection among the results of a parsed response; \<open>searchApplePodcasts\<close> is the request
  before it, lines 93 to 110.
\<close>

definition selectPodcast ::
  "'n AppleSearchResponse \<Rightarrow> string \<Rightarrow> 'n ApplePodcastResult option" where
  "selectPodcast data showName =
     (if resultCount data = 0 \<or> length (results data) = 0 then None
      else case find (\<lambda>r. normalizeText (collectionName r) = normalizeText showName) (results data) of
             Some exactMatch \<Rightarrow> Some exactMatch
           | None \<Rightarrow>
               (case find (\<lambda>r. fuzzyMatch (collectionName r) showName) (results data) of
                  Some fuzzyMatchResult \<Rightarrow> Some fuzzyMatchResult
                | None \<Rightarrow> Some (results data ! 0)))"

definition searchApplePodcasts ::
  "'n network \<Rightarrow> string \<Rightarrow> exception + 'n ApplePodcastResult option" where
  "searchApplePodcasts net showName =
     (case directory net showName of
        Inl e \<Rightarrow> Inl e
      | Inr response \<Rightarrow>
          if \<not> ok response
          then Inl (Error (''Apple Search API error: '' @ natToString (status response)))
          else (case body response of
                  Inl e \<Rightarrow> Inl e
                | Inr data \<Rightarrow> Inr (selectPodcast data showName)))"

section \<open>Feed retrieval and episode resolution\<close>

text \<open>
  \<open>fetchAndParseRSSFeed\<close> in two parts: \<open>feedItems\<close> is its lines 160 to 171, the entries
  of a parsed document; \<open>fetchAndParseRSSFeed\<close> is the request and the parse before it,
  lines 139 to 158.
\<close>

definition feedItems :: "RSSFeed \<Rightarrow> exception + RSSItem list" where
  "feedItems parsed =
     (case (case rss parsed of None \<Rightarrow> None | Some r \<Rightarrow> channel r) of
        None \<Rightarrow> Inl (Error ''Invalid RSS feed structure'')
      | Some ch \<Rightarrow>
          (case item ch of
             NoItem \<Rightarrow> Inr []
           | ItemArray items \<Rightarrow> Inr items
           | SingleItem items \<Rightarrow> Inr [items]))"

definition fetchAndParseRSSFeed :: "'n network \<Rightarrow> string \<Rightarrow> exception + RSSItem list" where
  "fetchAndParseRSSFeed net url =
     (case feeds net url of
        Inl e \<Rightarrow> Inl e
      | Inr response \<Rightarrow>
          if \<not> ok response
          then Inl (Error (''Failed to fetch RSS feed: '' @ natToString (status response)))
          else (case body response of
                  Inl e \<Rightarrow> Inl e
                | Inr parsed \<Rightarrow> feedItems parsed))"

definition findEpisode :: "RSSItem list \<Rightarrow> string \<Rightarrow> RSSItem option" where
  "findEpisode episodes episodeTitle =
     (case find (\<lambda>ep. normalizeText (title ep) = normalizeText episodeTitle) episodes of
        Some exactMatch \<Rightarrow> Some exactMatch
      | None \<Rightarrow> find (\<lambda>ep. fuzzyMatch (title ep) episodeTitle) episodes)"

section \<open>The handler\<close>

text \<open>
  The request: its method and what \<open>request.json()\<close> gives. That call throws, or yields
  \<open>null\<close>, or a value whose \<open>showName\<close> and \<open>episodeTitle\<close> properties are each absent, not
  a string, or a string. The test \<open>!p || typeof p !== "string"\<close> lets a property pass only
  when it is a non-empty string; reading a property of \<open>null\<close> throws outside the \<open>try\<close>
  block.
\<close>

datatype property = Absent | NotAString | Str string

datatype json_body = InvalidJson | JsonNull | JsonValue property property

record request =
  request_method :: string
  json :: json_body

text \<open>
  The objects given to \<open>jsonResponse\<close>: \<open>{error}\<close>, \<open>{error, message}\<close>,
  \<open>{error, message, availableEpisodes}\<close> and the success object
  \<open>{podlinkUrl, podcast: {name, appleId}, episode: {title, guid}}\<close>.
\<close>

datatype 'n payload =
    ErrorOnly string
  | ErrorMessage string string
  | EpisodeNotFound string string "string list"
  | Success (podlinkUrl: string) (podcast_name: string) (podcast_appleId: 'n)
      (episode_title: string) (episode_guid: string)

text \<open>
  What the handler gives back: the empty preflight response, a JSON response with its
  status, or an exception that leaves the handler.
\<close>

datatype 'n worker_response = Preflight nat | JsonResponse "'n payload" nat | Uncaught exception

definition jsonResponse :: "'n payload \<Rightarrow> nat \<Rightarrow> 'n worker_response" where
  "jsonResponse data statusCode = JsonResponse data statusCode"

definition quote :: string where
  "quote = [CHR 0x22]"

text \<open>The body of the \<open>try\<close> block, lines 263 to 330.\<close>

definition resolveLink ::
  "'n engine \<Rightarrow> 'n network \<Rightarrow> string \<Rightarrow> string \<Rightarrow> exception + 'n worker_response" where
  "resolveLink e net showName episodeTitle =
     (case searchApplePodcasts net showName of
        Inl thrown \<Rightarrow> Inl thrown
      | Inr None \<Rightarrow>
          Inr (jsonResponse
                 (ErrorMessage ''Podcast not found''
                    (''No podcast found matching '' @ quote @ showName @ quote))
                 404)
      | Inr (Some podcast) \<Rightarrow>
          (case feedUrl podcast of
             None \<Rightarrow>
               Inr (jsonResponse
                      (ErrorMessage ''No feed URL''
                         (''Podcast '' @ quote @ collectionName podcast @ quote
                            @ '' has no RSS feed URL''))
                      404)
           | Some url \<Rightarrow>
               if url = [] then
                 Inr (jsonResponse
                        (ErrorMessage ''No feed URL''
                           (''Podcast '' @ quote @ collectionName podcast @ quote
                              @ '' has no RSS feed URL''))
                        404)
               else
                 (case fetchAndParseRSSFeed net url of
                    Inl thrown \<Rightarrow> Inl thrown
                  | Inr episodes \<Rightarrow>
                      if length episodes = 0 then
                        Inr (jsonResponse
                               (ErrorMessage ''No episodes''
                                  (''Podcast '' @ quote @ collectionName podcast @ quote
                                     @ '' has no episodes''))
                               404)
                      else
                        (case findEpisode episodes episodeTitle of
                           None \<Rightarrow>
                             Inr (jsonResponse
                                    (EpisodeNotFound ''Episode not found''
                                       (''No episode found matching '' @ quote @ episodeTitle
                                          @ quote @ '' in '' @ quote @ collectionName podcast
                                          @ quote)
                                       (map title (take 5 episodes)))
                                    404)
                         | Some episode \<Rightarrow>
                             (let guid = extractGuid (guid episode)
                              in case toUrlSafeBase64 e guid of
                                   Inl thrown \<Rightarrow> Inl thrown
                                 | Inr base64Guid \<Rightarrow>
                                     (let podlinkUrl = ''https://pod.link/''
                                            @ numberToString e (collectionId podcast)
                                            @ ''/episode/'' @ base64Guid
                                      in Inr (jsonResponse
                                                (Success podlinkUrl (collectionName podcast)
                                                   (collectionId podcast) (title episode) guid)
                                                200)))))))"

text \<open>The handler \<open>fetch\<close>, lines 213 to 345.\<close>

definition fetch :: "'n engine \<Rightarrow> 'n network \<Rightarrow> request \<Rightarrow> 'n worker_response" where
  "fetch e net request =
     (if request_method request = ''OPTIONS'' then Preflight 204
      else if request_method request \<noteq> ''POST'' then
        jsonResponse (ErrorOnly ''Method not allowed. Use POST.'') 405
      else
        (case json request of
           InvalidJson \<Rightarrow> jsonResponse (ErrorOnly ''Invalid JSON body'') 400
         | JsonNull \<Rightarrow> Uncaught (Error ''Cannot read properties of null (reading 'showName')'')
         | JsonValue showNameProperty episodeTitleProperty \<Rightarrow>
             (case showNameProperty of
                Str showName \<Rightarrow>
                  if showName = [] then
                    jsonResponse (ErrorOnly ''Missing or invalid 'showName' field'') 400
                  else
                    (case episodeTitleProperty of
                       Str episodeTitle \<Rightarrow>
                         if episodeTitle = [] then
                           jsonResponse (ErrorOnly ''Missing or invalid 'episodeTitle' field'') 400
                         else
                           (case resolveLink e net showName episodeTitle of
                              Inr response \<Rightarrow> response
                            | Inl error \<Rightarrow>
                                (let message =
                                       (case error of
                                          Error m \<Rightarrow> m
                                        | NotAnError \<Rightarrow> ''Unknown error occurred'')
                                 in jsonResponse (ErrorMessage ''Internal server error'' message)
                                      500))
                     | _ \<Rightarrow> jsonResponse (ErrorOnly ''Missing or invalid 'episodeTitle' field'') 400)
              | _ \<Rightarrow> jsonResponse (ErrorOnly ''Missing or invalid 'showName' field'') 400)))"

text \<open>A string that \<open>trim\<close> leaves alone: empty, or with no white space at either end.\<close>

definition trimmed :: "string \<Rightarrow> bool" where
  "trimmed u = (u = [] \<or> (\<not> isWhiteSpace (hd u) \<and> \<not> isWhiteSpace (last u)))"

section \<open>Example data\<close>

text \<open>
  An engine whose numbers are the integers from 0 to \<open>2^53 - 1\<close>, which a template literal
  renders in decimal, and which accepts 125000 arguments in a call.
\<close>

definition example_engine :: "53 word engine" where
  "example_engine =
     \<lparr>numberToString = (\<lambda>n. natToString (unat n)), maxArguments = 125000,
      rangeErrorMessage = ''Maximum call stack size exceeded''\<rparr>"

text \<open>
  The scenario of the specification: the show \<open>The Daily\<close> with one feed entry, behind a
  directory that reports a given result count and a feed server that gives a given
  response.
\<close>

definition example_podcast :: "53 word ApplePodcastResult" where
  "example_podcast =
     \<lparr>collectionId = 1234567890, collectionName = ''The Daily'',
      feedUrl = Some ''https://example.test/feed''\<rparr>"

definition example_episode :: RSSItem where
  "example_episode = \<lparr>title = ''Latest Episode'', guid = GuidString ''guid-1''\<rparr>"

definition example_feed :: "item_value \<Rightarrow> RSSFeed" where
  "example_feed entries = RSSFeed (Some (Rss (Some (RSSChannel ''The Daily'' entries))))"

definition example_network :: "int \<Rightarrow> RSSFeed http_response \<Rightarrow> 53 word network" where
  "example_network count feed_response =
     \<lparr>directory = (\<lambda>showName. Inr (HttpResponse 200
         (Inr \<lparr>resultCount = count, results = [example_podcast]\<rparr>))),
      feeds = (\<lambda>url. Inr feed_response)\<rparr>"

definition example_request :: "string \<Rightarrow> request" where
  "example_request episodeTitle =
     \<lparr>request_method = ''POST'', json = JsonValue (Str ''The Daily'') (Str episodeTitle)\<rparr>"

text \<open>A directory that answers every search with the given response, and a candidate
  with a given name.\<close>

definition directory_network :: "53 word AppleSearchResponse \<Rightarrow> 53 word network" where
  "directory_network data =
     \<lparr>directory = (\<lambda>showName. Inr (HttpResponse 200 (Inr data))),
      feeds = (\<lambda>url. Inr (HttpResponse 404 (Inl NotAnError)))\<rparr>"

definition podcast_named :: "string \<Rightarrow> 53 word ApplePodcastResult" where
  "podcast_named name = \<lparr>collectionId = 1, collectionName = name, feedUrl = None\<rparr>"

definition episode_long :: RSSItem where
  "episode_long = \<lparr>title = ''Ep1 Extended'', guid = GuidString ''g-long''\<rparr>"

definition episode_short :: RSSItem where
  "episode_short = \<lparr>title = ''Ep1'', guid = GuidObject ''g-short''\<rparr>"

text \<open>A feed of six entries; the first carries its identifier in a \<open>#text\<close> field.\<close>

definition episode_titled :: "string \<Rightarrow> RSSItem" where
  "episode_titled t = \<lparr>title = t, guid = GuidString t\<rparr>"

definition six_episodes :: "RSSItem list" where
  "six_episodes =
     [episode_short, episode_long, episode_titled ''Three'', episode_titled ''Four'',
      episode_titled ''Five'', episode_titled ''Six'']"

section \<open>Text normalisation and fuzzy matching\<close>

lemma lowerChar_idem: "lowerChar (lowerChar c) = lowerChar c"
  by (auto simp: lowerChar_def Let_def)

lemma lowerChar_space: "lowerChar (CHR '' '') = CHR '' ''"
  by (simp add: lowerChar_def)

lemma isWhiteSpace_space: "isWhiteSpace (CHR '' '')"
  by (simp add: isWhiteSpace_def)

lemma set_replaceWhiteSpaceRuns:
  "x \<in> set (replaceWhiteSpaceRuns u) \<Longrightarrow> x = CHR '' '' \<or> x \<in> set u"
  by (induction u rule: replaceWhiteSpaceRuns.induct) (auto dest: set_dropWhileD split: if_splits)

lemma set_trim: "x \<in> set (trim u) \<Longrightarrow> x \<in> set u"
  by (auto simp: trim_def dest!: set_dropWhileD)

lemma trimmed_trim: "trimmed (trim u)"
proof -
  define v where "v = dropWhile isWhiteSpace u"
  define w where "w = rev (dropWhile isWhiteSpace (rev v))"
  have tw: "trim u = w" by (simp add: trim_def v_def w_def)
  show ?thesis
  proof (cases "w = []")
    case True then show ?thesis by (simp add: tw trimmed_def)
  next
    case False
    then have ne: "dropWhile isWhiteSpace (rev v) \<noteq> []" by (simp add: w_def)
    have l: "\<not> isWhiteSpace (last w)"
      using ne hd_dropWhile[OF ne] by (simp add: w_def last_rev)
    have "rev v = takeWhile isWhiteSpace (rev v) @ dropWhile isWhiteSpace (rev v)" by simp
    then have "rev (rev v) = rev (takeWhile isWhiteSpace (rev v) @ dropWhile isWhiteSpace (rev v))"
      by simp
    then have v: "v = w @ rev (takeWhile isWhiteSpace (rev v))"
      unfolding w_def by (metis rev_append rev_rev_ident)
    have vne: "v \<noteq> []" using v False by auto
    have "hd v = hd w" using v False by (metis hd_append2)
    moreover have "\<not> isWhiteSpace (hd v)" using vne unfolding v_def by (rule hd_dropWhile)
    ultimately show ?thesis using l by (simp add: tw trimmed_def)
  qed
qed

lemma dropWhile_hd_id: "xs = [] \<or> \<not> P (hd xs) \<Longrightarrow> dropWhile P xs = xs"
  by (cases xs) auto

lemma trim_trimmed: "trimmed u \<Longrightarrow> trim u = u"
proof -
  assume t: "trimmed u"
  have a: "dropWhile isWhiteSpace u = u"
    using t by (intro dropWhile_hd_id) (auto simp: trimmed_def)
  have b: "dropWhile isWhiteSpace (rev u) = rev u"
    using t by (intro dropWhile_hd_id) (auto simp: trimmed_def hd_rev)
  show ?thesis by (simp add: trim_def a b)
qed

lemma replaceWhiteSpaceRuns_hd:
  "u = [] \<or> \<not> isWhiteSpace (hd u) \<Longrightarrow>
   replaceWhiteSpaceRuns u = [] \<or> \<not> isWhiteSpace (hd (replaceWhiteSpaceRuns u))"
  by (cases u) auto

lemma replaceWhiteSpaceRuns_idem:
  "replaceWhiteSpaceRuns (replaceWhiteSpaceRuns u) = replaceWhiteSpaceRuns u"
proof (induction u rule: replaceWhiteSpaceRuns.induct)
  case 1
  then show ?case by simp
next
  case (2 c cs)
  show ?case
  proof (cases "isWhiteSpace c")
    case True
    let ?v = "dropWhile isWhiteSpace cs"
    have "?v = [] \<or> \<not> isWhiteSpace (hd ?v)" using hd_dropWhile by blast
    then have "dropWhile isWhiteSpace (replaceWhiteSpaceRuns ?v) = replaceWhiteSpaceRuns ?v"
      by (intro dropWhile_hd_id replaceWhiteSpaceRuns_hd)
    with True 2 show ?thesis by (simp add: isWhiteSpace_space)
  next
    case False
    with 2 show ?thesis by simp
  qed
qed

lemma replaceWhiteSpaceRuns_last:
  "u \<noteq> [] \<Longrightarrow> \<not> isWhiteSpace (last u) \<Longrightarrow>
   replaceWhiteSpaceRuns u \<noteq> [] \<and> \<not> isWhiteSpace (last (replaceWhiteSpaceRuns u))"
proof (induction u rule: replaceWhiteSpaceRuns.induct)
  case 1
  then show ?case by simp
next
  case (2 c cs)
  show ?case
  proof (cases "isWhiteSpace c")
    case True
    with 2(3,4) have cs: "cs \<noteq> []" by auto
    then have lcs: "\<not> isWhiteSpace (last cs)" using 2(4) by simp
    let ?v = "dropWhile isWhiteSpace cs"
    have "cs = takeWhile isWhiteSpace cs @ ?v" by simp
    have vne: "?v \<noteq> []"
      using cs lcs by (metis dropWhile_eq_Nil_conv last_in_set)
    then have "last ?v = last cs"
      by (metis last_appendR takeWhile_dropWhile_id)
    with 2(1)[OF True vne] lcs True show ?thesis by simp
  next
    case False
    show ?thesis
    proof (cases "cs = []")
      case True with False show ?thesis by simp
    next
      case ne: False
      with 2(2)[OF False ne] 2(4) False show ?thesis by simp
    qed
  qed
qed

lemma trimmed_replaceWhiteSpaceRuns: "trimmed u \<Longrightarrow> trimmed (replaceWhiteSpaceRuns u)"
  unfolding trimmed_def
  using replaceWhiteSpaceRuns_hd[of u] replaceWhiteSpaceRuns_last[of u]
  by (cases "u = []") auto

lemma toLowerCase_fixed: "\<forall>x\<in>set t. lowerChar x = x \<Longrightarrow> toLowerCase t = t"
  by (simp add: toLowerCase_def map_idI)

text \<open>
  C7. Normalising a normalised string changes nothing: for every string \<open>s\<close>,
  \<open>normalizeText (normalizeText s) = normalizeText s\<close>.
\<close>

theorem normalizeText_idempotent: "normalizeText (normalizeText s) = normalizeText s"
proof -
  let ?t = "normalizeText s"
  have "lowerChar x = x" if "x \<in> set ?t" for x
  proof -
    from that have "x = CHR '' '' \<or> x \<in> set (toLowerCase s)"
      unfolding normalizeText_def by (auto dest!: set_replaceWhiteSpaceRuns set_trim)
    then show ?thesis by (auto simp: toLowerCase_def lowerChar_space lowerChar_idem)
  qed
  then have low: "toLowerCase ?t = ?t" by (intro toLowerCase_fixed) blast
  have "trimmed ?t"
    unfolding normalizeText_def by (intro trimmed_replaceWhiteSpaceRuns trimmed_trim)
  then have tr: "trim ?t = ?t" by (rule trim_trimmed)
  have "normalizeText ?t = replaceWhiteSpaceRuns ?t"
    by (simp add: normalizeText_def[of ?t] low tr)
  also have "\<dots> = ?t"
    by (simp add: normalizeText_def[of s] replaceWhiteSpaceRuns_idem)
  finally show ?thesis .
qed

lemma str_includes_iff_sublist: "str_includes hay needle \<longleftrightarrow> sublist needle hay"
  by (induction hay) (auto simp: sublist_Cons_right)

text \<open>
  C6. \<open>fuzzyMatch a b\<close> holds exactly when the normalised strings are equal, or the
  normalised \<open>a\<close> contains the normalised \<open>b\<close> as a contiguous substring, or the other
  way round; either containment alone is enough.
\<close>

theorem fuzzyMatch_iff:
  "fuzzyMatch a b \<longleftrightarrow>
     normalizeText a = normalizeText b
     \<or> sublist (normalizeText b) (normalizeText a)
     \<or> sublist (normalizeText a) (normalizeText b)"
  by (simp add: fuzzyMatch_def Let_def str_includes_iff_sublist)

text \<open>
  C10. The fuzzy-match predicate is symmetric: \<open>fuzzyMatch a b\<close> and \<open>fuzzyMatch b a\<close>
  are the same truth value for all strings \<open>a\<close> and \<open>b\<close>.
\<close>

theorem fuzzyMatch_symmetric: "fuzzyMatch a b = fuzzyMatch b a"
  by (auto simp: fuzzyMatch_def Let_def)

section \<open>Identifier encoding\<close>

lemma unat_byte: "unat (b :: 8 word) < 256"
  using unsigned_less[of b, where 'a = nat] by simp

lemma btoa_code_units: "btoa (map (\<lambda>b. char_of (unat b)) d) = base64_encode d"
proof -
  have "(of_nat (of_char (char_of (unat b))) :: 8 word) = b" for b :: "8 word"
    using unat_byte[of b] by simp
  then show ?thesis by (simp add: btoa_def comp_def)
qed

lemma utf8_unit_code_point: "utf8_unit c = utf8_code_point (of_char c)"
proof -
  have "(of_char c :: nat) < 256" by simp
  then have "(of_char c :: nat) < 0x800" by arith
  then show ?thesis by (simp add: utf8_unit_def utf8_code_point_def Let_def)
qed

lemma TextEncoder_encode_utf8: "TextEncoder_encode s = utf8_bytes s"
proof -
  have "utf8_unit = (\<lambda>c. utf8_code_point (of_char c))"
    by (rule ext) (rule utf8_unit_code_point)
  then show ?thesis by (simp add: TextEncoder_encode_def utf8_bytes_def)
qed

lemma length_TextEncoder_encode: "length s \<le> length (TextEncoder_encode s)"
proof (induction s)
  case Nil
  then show ?case by (simp add: TextEncoder_encode_def)
next
  case (Cons c cs)
  have "1 \<le> length (utf8_unit c)" by (simp add: utf8_unit_def Let_def)
  with Cons show ?case by (simp add: TextEncoder_encode_def)
qed

lemma replaceAllChar_twice:
  "replaceAllChar (CHR ''/'') (CHR ''_'') (replaceAllChar (CHR ''+'') (CHR ''-'') x) =
   map (\<lambda>c. if c = CHR ''+'' then CHR ''-'' else if c = CHR ''/'' then CHR ''_'' else c) x"
  by (simp add: replaceAllChar_def)

lemma replaceTrailingEquals_all: "\<forall>d\<in>set cs. d = CHR ''='' \<Longrightarrow> replaceTrailingEquals cs = []"
  by (cases cs) (auto simp: list_all_iff)

lemma replaceTrailingEquals_rev:
  "replaceTrailingEquals x = rev (dropWhile (\<lambda>c. c = CHR ''='') (rev x))"
proof (induction x)
  case Nil
  then show ?case by simp
next
  case (Cons c cs)
  show ?case
  proof (cases "\<forall>d\<in>set cs. d = CHR ''=''")
    case True
    then show ?thesis
      by (simp add: dropWhile_append list_all_iff replaceTrailingEquals_all)
  next
    case False
    with Cons show ?thesis by (simp add: dropWhile_append list_all_iff)
  qed
qed

lemma toUrlSafeBase64_within_limit:
  "length (TextEncoder_encode s) \<le> maxArguments e \<Longrightarrow> toUrlSafeBase64 e s = Inr (encode_spec s)"
  by (simp add: toUrlSafeBase64_def fromCharCode_def encode_spec_def Let_def btoa_code_units
      replaceAllChar_twice replaceTrailingEquals_rev TextEncoder_encode_utf8)

lemma toUrlSafeBase64_beyond_limit:
  "maxArguments e < length (TextEncoder_encode s) \<Longrightarrow>
   toUrlSafeBase64 e s = Inl (Error (rangeErrorMessage e))"
  by (simp add: toUrlSafeBase64_def fromCharCode_def Let_def)

lemma toUrlSafeBase64_Inr:
  "toUrlSafeBase64 e s = Inr token \<Longrightarrow> token = encode_spec s"
  using toUrlSafeBase64_within_limit[of s e] toUrlSafeBase64_beyond_limit[of e s]
  by (cases "length (TextEncoder_encode s) \<le> maxArguments e") auto

lemma toUrlSafeBase64_empty: "toUrlSafeBase64 e [] = Inr []"
  by (simp add: toUrlSafeBase64_def TextEncoder_encode_def fromCharCode_def btoa_def
      replaceAllChar_def)

lemma length_base64_alphabet: "length base64_alphabet = 64"
  by (simp add: base64_alphabet_def)

lemma sextet_in: "i < 64 \<Longrightarrow> sextet i \<in> set base64_alphabet"
  unfolding sextet_def using length_base64_alphabet by (metis nth_mem)

lemma base64_encode_shape:
  "\<exists>chars pad. base64_encode d = chars @ pad \<and> set chars \<subseteq> set base64_alphabet
     \<and> set pad \<subseteq> {CHR ''=''}"
proof (induction d rule: base64_encode.induct)
  case 1
  then show ?case by simp
next
  case (2 a)
  have "unat a div 4 < 64" "unat a mod 4 * 16 < 64" using unat_byte[of a] by simp_all
  then have "set [sextet (unat a div 4), sextet (unat a mod 4 * 16)] \<subseteq> set base64_alphabet"
    by (simp add: sextet_in)
  moreover have "base64_encode [a] = [sextet (unat a div 4), sextet (unat a mod 4 * 16)] @ [CHR ''='', CHR ''='']"
    by simp
  ultimately show ?case by (intro exI[of _ "[sextet (unat a div 4), sextet (unat a mod 4 * 16)]"] exI[of _ "[CHR ''='', CHR ''='']"]) simp
next
  case (3 a b)
  have "unat a div 4 < 64" "unat a mod 4 * 16 + unat b div 16 < 64" "unat b mod 16 * 4 < 64"
    using unat_byte[of a] unat_byte[of b] by simp_all
  then show ?case
    by (intro exI[of _ "[sextet (unat a div 4), sextet (unat a mod 4 * 16 + unat b div 16),
      sextet (unat b mod 16 * 4)]"] exI[of _ "[CHR ''='']"]) (simp add: sextet_in)
next
  case (4 a b c bytes)
  then obtain chars pad where r: "base64_encode bytes = chars @ pad"
    "set chars \<subseteq> set base64_alphabet" "set pad \<subseteq> {CHR ''=''}" by blast
  have "unat a div 4 < 64" "unat a mod 4 * 16 + unat b div 16 < 64"
    "unat b mod 16 * 4 + unat c div 64 < 64" "unat c mod 64 < 64"
    using unat_byte[of a] unat_byte[of b] unat_byte[of c] by simp_all
  then show ?case using r
    by (intro exI[of _ "[sextet (unat a div 4), sextet (unat a mod 4 * 16 + unat b div 16),
      sextet (unat b mod 16 * 4 + unat c div 64), sextet (unat c mod 64)] @ chars"] exI[of _ pad])
      (simp add: sextet_in)
qed

lemma url_subst_alphabet:
  "c \<in> set base64_alphabet \<Longrightarrow>
   (if c = CHR ''+'' then CHR ''-'' else if c = CHR ''/'' then CHR ''_'' else c) \<in> set url_safe_alphabet"
  by (auto simp: base64_alphabet_def url_safe_alphabet_def)

lemma equals_not_url_safe: "CHR ''='' \<notin> set url_safe_alphabet"
  by (simp add: url_safe_alphabet_def)

lemma strip_padding_subset:
  assumes "\<And>x. x \<in> set pad \<Longrightarrow> P x"
  shows "set (rev (dropWhile P (rev (chars @ pad)))) \<subseteq> set chars"
proof -
  have "dropWhile P (rev pad @ rev chars) = dropWhile P (rev chars)"
    by (rule dropWhile_append2) (simp add: assms)
  then have "set (rev (dropWhile P (rev (chars @ pad)))) = set (dropWhile P (rev chars))"
    by simp
  also have "\<dots> \<subseteq> set (rev chars)"
    by (rule subsetI) (erule set_dropWhileD)
  finally show ?thesis by simp
qed

lemma encode_spec_alphabet: "set (encode_spec s) \<subseteq> set url_safe_alphabet"
proof -
  let ?f = "\<lambda>c. if c = CHR ''+'' then CHR ''-'' else if c = CHR ''/'' then CHR ''_'' else c"
  obtain chars pad where r: "base64_encode (utf8_bytes s) = chars @ pad"
    "set chars \<subseteq> set base64_alphabet" "set pad \<subseteq> {CHR ''=''}"
    using base64_encode_shape by blast
  have pad: "x = CHR ''=''" if "x \<in> set (map ?f pad)" for x
  proof -
    from that obtain y where "y \<in> set pad" "x = ?f y" by (auto simp only: set_map)
    moreover from this r(3) have "y = CHR ''=''" by blast
    ultimately show ?thesis by simp
  qed
  have "encode_spec s = rev (dropWhile (\<lambda>c. c = CHR ''='') (rev (map ?f chars @ map ?f pad)))"
    unfolding encode_spec_def r(1) map_append ..
  then have "set (encode_spec s) \<subseteq> set (map ?f chars)"
    using strip_padding_subset[of "map ?f pad" "\<lambda>c. c = CHR ''=''" "map ?f chars"] pad
    by simp
  moreover have "?f c \<in> set url_safe_alphabet" if "c \<in> set chars" for c
    using that r(2) url_subst_alphabet[of c] by blast
  then have "set (map ?f chars) \<subseteq> set url_safe_alphabet"
    unfolding set_map by (rule image_subsetI)
  ultimately show ?thesis by (rule subset_trans)
qed

lemma toUrlSafeBase64_alphabet:
  "toUrlSafeBase64 e s = Inr token \<Longrightarrow> set token \<subseteq> set url_safe_alphabet"
  using toUrlSafeBase64_Inr[of e s token] encode_spec_alphabet[of s] by simp

text \<open>
  C5 (the code falls short of it on long input). The claim gives the token of every
  input string. Line 79 spreads the UTF-8 bytes into the arguments of one call: for the
  string of 130000 characters \<open>a\<close>, on an engine that accepts fewer than 130000
  arguments in a call, \<open>toUrlSafeBase64\<close> throws the \<open>RangeError\<close> and returns no token.
\<close>

theorem toUrlSafeBase64_long_input:
  "maxArguments e < 130000 \<Longrightarrow>
   toUrlSafeBase64 e (replicate 130000 (CHR ''a'')) = Inl (Error (rangeErrorMessage e))"
proof -
  assume "maxArguments e < 130000"
  moreover have "130000 \<le> length (TextEncoder_encode (replicate 130000 (CHR ''a'')))"
    using length_TextEncoder_encode[of "replicate 130000 (CHR ''a'')"] by simp
  ultimately have "maxArguments e < length (TextEncoder_encode (replicate 130000 (CHR ''a'')))"
    by simp
  then show ?thesis by (rule toUrlSafeBase64_beyond_limit)
qed

theorem toUrlSafeBase64_long_input_witness:
  "maxArguments example_engine < 130000
   \<and> toUrlSafeBase64 example_engine (replicate 130000 (CHR ''a''))
       = Inl (Error ''Maximum call stack size exceeded'')"
  using toUrlSafeBase64_long_input[of example_engine] by (simp add: example_engine_def)

section \<open>Evaluating the example\<close>

lemma example_normalizeText:
  "normalizeText ''The Daily'' = ''the daily''"
  "normalizeText ''Latest Episode'' = ''latest episode''"
  "normalizeText ''Pilot'' = ''pilot''"
  by code_simp+

lemma example_normalizeText_titles:
  "normalizeText ''Ep1 Extended'' = ''ep1 extended''"
  "normalizeText ''Ep1'' = ''ep1''"
  "normalizeText '' EP1  '' = ''ep1''"
  by code_simp+

lemma example_normalizeText_shows:
  "normalizeText ''The Daily Show'' = ''the daily show''"
  "normalizeText ''Foo'' = ''foo''"
  "normalizeText ''Bar'' = ''bar''"
  "normalizeText ''Baz'' = ''baz''"
  by code_simp+

lemma example_fuzzyMatch_shows:
  "fuzzyMatch ''The Daily Show'' ''The Daily''"
  "\<not> fuzzyMatch ''Foo'' ''The Daily''"
  "\<not> fuzzyMatch ''Foo'' ''Baz''"
  "\<not> fuzzyMatch ''Bar'' ''Baz''"
  by code_simp+

lemma example_fuzzyMatch_titles:
  "fuzzyMatch ''Ep1 Extended'' ''extended''"
  "\<not> fuzzyMatch ''Ep1 Extended'' ''Ep3''"
  "\<not> fuzzyMatch ''Ep1'' ''Ep3''"
  by code_simp+

lemma example_normalizeText_targets:
  "normalizeText ''extended'' = ''extended''"
  "normalizeText ''Ep3'' = ''ep3''"
  by code_simp+

lemma example_directory:
  "directory (directory_network data) showName = Inr (HttpResponse 200 (Inr data))"
  by (simp add: directory_network_def)

lemma example_podcast_named: "collectionName (podcast_named name) = name"
  by (simp add: podcast_named_def)

lemma example_encode_spec:
  "encode_spec ''guid-1'' = ''Z3VpZC0x''"
  "encode_spec ''g-short'' = ''Zy1zaG9ydA''"
  by code_simp+

lemma example_length_utf8:
  "length (TextEncoder_encode ''guid-1'') = 6"
  "length (TextEncoder_encode ''g-short'') = 7"
  by code_simp+

lemma example_toUrlSafeBase64:
  "toUrlSafeBase64 example_engine ''guid-1'' = Inr ''Z3VpZC0x''"
  "toUrlSafeBase64 example_engine ''g-short'' = Inr ''Zy1zaG9ydA''"
  by (simp_all add: toUrlSafeBase64_within_limit example_length_utf8 example_encode_spec
      example_engine_def)

lemma example_numberToString:
  "numberToString example_engine 1234567890 = ''1234567890''"
  by (simp add: example_engine_def)

lemma example_podcast_fields:
  "feedUrl example_podcast = Some ''https://example.test/feed''"
  "collectionName example_podcast = ''The Daily''"
  "collectionId example_podcast = 1234567890"
  by (simp_all add: example_podcast_def)

lemma example_episode_fields:
  "title example_episode = ''Latest Episode''"
  "guid example_episode = GuidString ''guid-1''"
  by (simp_all add: example_episode_def)

lemma example_search:
  "searchApplePodcasts (example_network 1 feed_response) ''The Daily'' = Inr (Some example_podcast)"
  by (simp add: searchApplePodcasts_def selectPodcast_def example_network_def ok_def
      example_podcast_def)

lemma example_feeds: "feeds (example_network count feed_response) url = Inr feed_response"
  by (simp add: example_network_def)

lemma example_fetch_503:
  "fetchAndParseRSSFeed (example_network 1 (HttpResponse 503 (Inr (example_feed NoItem)))) url
     = Inl (Error ''Failed to fetch RSS feed: 503'')"
  by (simp add: fetchAndParseRSSFeed_def example_feeds ok_def)

lemma example_fetch_no_channel:
  "fetchAndParseRSSFeed (example_network 1 (HttpResponse 200 (Inr (RSSFeed (Some (Rss None)))))) url
     = Inl (Error ''Invalid RSS feed structure'')"
  by (simp add: fetchAndParseRSSFeed_def example_feeds ok_def feedItems_def)

lemma example_fetch_items:
  "fetchAndParseRSSFeed (example_network 1 (HttpResponse 200 (Inr (example_feed (SingleItem entry))))) url
     = Inr [entry]"
  by (simp add: fetchAndParseRSSFeed_def example_feeds ok_def feedItems_def example_feed_def)

lemma example_findEpisode_Pilot:
  "findEpisode [\<lparr>title = ''Pilot'', guid = g\<rparr>] ''Pilot'' = Some \<lparr>title = ''Pilot'', guid = g\<rparr>"
  by (simp add: findEpisode_def)

lemma example_findEpisode_Latest:
  "findEpisode [example_episode] ''Latest Episode'' = Some example_episode"
  "findEpisode [example_episode] ''Pilot'' = None"
  by (simp_all add: findEpisode_def example_episode_def fuzzyMatch_def example_normalizeText)

section \<open>Show selection\<close>

lemma find_hd_filter:
  "find P xs = (if \<exists>x\<in>set xs. P x then Some (hd (filter P xs)) else None)"
  by (induction xs) auto

lemma find_Some_mem: "find P xs = Some x \<Longrightarrow> x \<in> set xs"
  by (induction xs) (auto split: if_splits)

lemma selectPodcast_policy:
  "selectPodcast data showName =
     (if resultCount data = 0 \<or> results data = [] then None
      else if \<exists>r\<in>set (results data). normalizeText (collectionName r) = normalizeText showName
      then Some (hd (filter (\<lambda>r. normalizeText (collectionName r) = normalizeText showName)
                       (results data)))
      else if \<exists>r\<in>set (results data). fuzzyMatch (collectionName r) showName
      then Some (hd (filter (\<lambda>r. fuzzyMatch (collectionName r) showName) (results data)))
      else Some (hd (results data)))"
  unfolding selectPodcast_def
  by (simp add: hd_conv_nth
      find_hd_filter[of "\<lambda>r. normalizeText (collectionName r) = normalizeText showName"]
      find_hd_filter[of "\<lambda>r. fuzzyMatch (collectionName r) showName"])

lemma selectPodcast_mem: "selectPodcast data showName = Some p \<Longrightarrow> p \<in> set (results data)"
  by (auto simp: selectPodcast_def split: option.splits if_splits dest: find_Some_mem)

lemma searchApplePodcasts_mem:
  "searchApplePodcasts net showName = Inr (Some p) \<Longrightarrow>
   \<exists>response data. directory net showName = Inr response \<and> body response = Inr data
      \<and> p \<in> set (results data)"
  by (auto simp: searchApplePodcasts_def split: sum.splits if_splits dest: selectPodcast_mem)

text \<open>
  The directory may report a result count of zero together with a non-empty list; the
  guard on \<open>resultCount\<close> then answers \<open>null\<close> although a candidate with the queried name
  is in the list.
\<close>

theorem searchApplePodcasts_counterexample:
  "results \<lparr>resultCount = 0, results = [example_podcast]\<rparr> \<noteq> []
   \<and> normalizeText (collectionName example_podcast) = normalizeText ''The Daily''
   \<and> searchApplePodcasts (example_network 0 (HttpResponse 200 (Inr (example_feed NoItem))))
         ''The Daily'' = Inr None"
  by (simp add: searchApplePodcasts_def selectPodcast_def example_network_def ok_def
      example_podcast_def)

text \<open>
  C2 (amended). When the directory answers with a success status and a response whose
  \<open>resultCount\<close> is not zero and whose result list is not empty, the selection is the
  first candidate whose name is normalized-equal to \<open>showName\<close> if there is one, else the
  first candidate whose name fuzzy-matches \<open>showName\<close> if there is one, else the first
  candidate of the list. When \<open>resultCount\<close> is zero or the list is empty, it is \<open>null\<close>.
\<close>

theorem searchApplePodcasts_selection:
  assumes "directory net showName = Inr response" and "ok response"
    and "body response = Inr data"
  shows "searchApplePodcasts net showName =
     Inr (if resultCount data = 0 \<or> results data = [] then None
      else if \<exists>r\<in>set (results data). normalizeText (collectionName r) = normalizeText showName
      then Some (hd (filter (\<lambda>r. normalizeText (collectionName r) = normalizeText showName)
                       (results data)))
      else if \<exists>r\<in>set (results data). fuzzyMatch (collectionName r) showName
      then Some (hd (filter (\<lambda>r. fuzzyMatch (collectionName r) showName) (results data)))
      else Some (hd (results data)))"
  using assms by (simp add: searchApplePodcasts_def selectPodcast_policy)

theorem searchApplePodcasts_selection_witness:
  "searchApplePodcasts
      (directory_network
         \<lparr>resultCount = 2, results = [podcast_named ''The Daily Show'', podcast_named ''The Daily'']\<rparr>)
      ''The Daily'' = Inr (Some (podcast_named ''The Daily''))
   \<and> searchApplePodcasts
      (directory_network
         \<lparr>resultCount = 2, results = [podcast_named ''Foo'', podcast_named ''The Daily Show'']\<rparr>)
      ''The Daily'' = Inr (Some (podcast_named ''The Daily Show''))
   \<and> searchApplePodcasts
      (directory_network \<lparr>resultCount = 2, results = [podcast_named ''Foo'', podcast_named ''Bar'']\<rparr>)
      ''Baz'' = Inr (Some (podcast_named ''Foo''))
   \<and> searchApplePodcasts (directory_network \<lparr>resultCount = 0, results = []\<rparr>) ''Baz'' = Inr None"
  using
    searchApplePodcasts_selection[of "directory_network
        \<lparr>resultCount = 2, results = [podcast_named ''The Daily Show'', podcast_named ''The Daily'']\<rparr>"
      "''The Daily''" "HttpResponse 200 (Inr
        \<lparr>resultCount = 2, results = [podcast_named ''The Daily Show'', podcast_named ''The Daily'']\<rparr>)"
      "\<lparr>resultCount = 2, results = [podcast_named ''The Daily Show'', podcast_named ''The Daily'']\<rparr>"]
    searchApplePodcasts_selection[of "directory_network
        \<lparr>resultCount = 2, results = [podcast_named ''Foo'', podcast_named ''The Daily Show'']\<rparr>"
      "''The Daily''" "HttpResponse 200 (Inr
        \<lparr>resultCount = 2, results = [podcast_named ''Foo'', podcast_named ''The Daily Show'']\<rparr>)"
      "\<lparr>resultCount = 2, results = [podcast_named ''Foo'', podcast_named ''The Daily Show'']\<rparr>"]
    searchApplePodcasts_selection[of "directory_network
        \<lparr>resultCount = 2, results = [podcast_named ''Foo'', podcast_named ''Bar'']\<rparr>"
      "''Baz''" "HttpResponse 200 (Inr
        \<lparr>resultCount = 2, results = [podcast_named ''Foo'', podcast_named ''Bar'']\<rparr>)"
      "\<lparr>resultCount = 2, results = [podcast_named ''Foo'', podcast_named ''Bar'']\<rparr>"]
    searchApplePodcasts_selection[of "directory_network
        \<lparr>resultCount = 0, results = []\<rparr>"
      "''Baz''" "HttpResponse 200 (Inr
        \<lparr>resultCount = 0, results = []\<rparr>)"
      "\<lparr>resultCount = 0, results = []\<rparr>"]
  by (simp add: ok_def example_directory example_podcast_named example_normalizeText
      example_normalizeText_shows example_fuzzyMatch_shows)

section \<open>Episode resolution\<close>

lemma normalized_equal_fuzzyMatch:
  "normalizeText a = normalizeText b \<Longrightarrow> fuzzyMatch a b"
  by (simp add: fuzzyMatch_def)

lemma findEpisode_mem: "findEpisode episodes target = Some ep \<Longrightarrow> ep \<in> set episodes"
  by (auto simp: findEpisode_def split: option.splits dest: find_Some_mem)

text \<open>
  C3. \<open>findEpisode\<close> returns the first episode whose title is normalized-equal to the
  target, else the first episode whose title fuzzy-matches the target, else \<open>null\<close>; it
  returns \<open>null\<close> exactly when no title fuzzy-matches, so no arbitrary episode is ever
  returned.
\<close>

theorem findEpisode_precedence:
  "findEpisode episodes target =
     (if \<exists>ep\<in>set episodes. normalizeText (title ep) = normalizeText target
      then Some (hd (filter (\<lambda>ep. normalizeText (title ep) = normalizeText target) episodes))
      else if \<exists>ep\<in>set episodes. fuzzyMatch (title ep) target
      then Some (hd (filter (\<lambda>ep. fuzzyMatch (title ep) target) episodes))
      else None)
   \<and> (findEpisode episodes target = None \<longleftrightarrow> \<not> (\<exists>ep\<in>set episodes. fuzzyMatch (title ep) target))"
proof -
  have 1: "findEpisode episodes target =
     (if \<exists>ep\<in>set episodes. normalizeText (title ep) = normalizeText target
      then Some (hd (filter (\<lambda>ep. normalizeText (title ep) = normalizeText target) episodes))
      else if \<exists>ep\<in>set episodes. fuzzyMatch (title ep) target
      then Some (hd (filter (\<lambda>ep. fuzzyMatch (title ep) target) episodes))
      else None)"
    unfolding findEpisode_def
    by (simp add: find_hd_filter[of "\<lambda>ep. normalizeText (title ep) = normalizeText target"]
        find_hd_filter[of "\<lambda>ep. fuzzyMatch (title ep) target"])
  have 2: "findEpisode episodes target = None \<longleftrightarrow> \<not> (\<exists>ep\<in>set episodes. fuzzyMatch (title ep) target)"
    unfolding 1 using normalized_equal_fuzzyMatch by auto
  show ?thesis using 1 2 by blast
qed

theorem findEpisode_precedence_witness:
  "findEpisode [episode_long, episode_short] '' EP1  '' = Some episode_short
   \<and> findEpisode [episode_long, episode_short] ''extended'' = Some episode_long
   \<and> findEpisode [episode_long, episode_short] ''Ep3'' = None"
proof -
  have l: "fuzzyMatch (title episode_long) '' EP1  ''"
    by (simp add: fuzzyMatch_def episode_long_def example_normalizeText_titles)
  show ?thesis
    using findEpisode_precedence[of "[episode_long, episode_short]" "'' EP1  ''"]
      findEpisode_precedence[of "[episode_long, episode_short]" "''extended''"]
      findEpisode_precedence[of "[episode_long, episode_short]" "''Ep3''"] l
    by (simp add: episode_long_def episode_short_def example_normalizeText_titles
        example_normalizeText_targets example_fuzzyMatch_titles)
qed

section \<open>Episode extraction\<close>

text \<open>
  C8. For a feed answered with a success status whose parsed document has a channel, the
  episodes are a flat list: a single entry gives the one-element list, an array of
  entries gives that array unchanged, and a channel without entries gives the empty
  list, not an error.
\<close>

theorem fetchAndParseRSSFeed_items:
  assumes "feeds net url = Inr response" and "ok response"
    and "body response = Inr parsed" and "rss parsed = Some r" and "channel r = Some ch"
  shows "(\<forall>entry. item ch = SingleItem entry \<longrightarrow> fetchAndParseRSSFeed net url = Inr [entry])
    \<and> (\<forall>entries. item ch = ItemArray entries \<longrightarrow> fetchAndParseRSSFeed net url = Inr entries)
    \<and> (item ch = NoItem \<longrightarrow> fetchAndParseRSSFeed net url = Inr [])"
  using assms by (simp add: fetchAndParseRSSFeed_def feedItems_def)

theorem fetchAndParseRSSFeed_items_witness:
  "fetchAndParseRSSFeed
      (example_network 1 (HttpResponse 200 (Inr (example_feed (SingleItem example_episode)))))
      ''https://example.test/feed'' = Inr [example_episode]
   \<and> fetchAndParseRSSFeed
      (example_network 1
         (HttpResponse 200 (Inr (example_feed (ItemArray [episode_long, episode_short])))))
      ''https://example.test/feed'' = Inr [episode_long, episode_short]
   \<and> fetchAndParseRSSFeed
      (example_network 1 (HttpResponse 200 (Inr (example_feed NoItem))))
      ''https://example.test/feed'' = Inr []"
  using
    fetchAndParseRSSFeed_items[of
      "example_network 1 (HttpResponse 200 (Inr (example_feed (SingleItem example_episode))))"
      "''https://example.test/feed''"
      "HttpResponse 200 (Inr (example_feed (SingleItem example_episode)))"
      "example_feed (SingleItem example_episode)"
      "Rss (Some (RSSChannel ''The Daily'' (SingleItem example_episode)))"
      "RSSChannel ''The Daily'' (SingleItem example_episode)"]
    fetchAndParseRSSFeed_items[of
      "example_network 1 (HttpResponse 200 (Inr (example_feed (ItemArray [episode_long, episode_short]))))"
      "''https://example.test/feed''"
      "HttpResponse 200 (Inr (example_feed (ItemArray [episode_long, episode_short])))"
      "example_feed (ItemArray [episode_long, episode_short])"
      "Rss (Some (RSSChannel ''The Daily'' (ItemArray [episode_long, episode_short])))"
      "RSSChannel ''The Daily'' (ItemArray [episode_long, episode_short])"]
    fetchAndParseRSSFeed_items[of
      "example_network 1 (HttpResponse 200 (Inr (example_feed (NoItem))))"
      "''https://example.test/feed''"
      "HttpResponse 200 (Inr (example_feed (NoItem)))"
      "example_feed (NoItem)"
      "Rss (Some (RSSChannel ''The Daily'' (NoItem)))"
      "RSSChannel ''The Daily'' (NoItem)"]
  by (simp add: ok_def example_feeds example_feed_def)

section \<open>The pipeline\<close>

lemma fetch_JsonResponse_origin:
  assumes "fetch e net request = JsonResponse data st"
    and "\<forall>text. data \<noteq> ErrorOnly text" and "st \<noteq> 500"
  shows "\<exists>showName episodeTitle. json request = JsonValue (Str showName) (Str episodeTitle)
      \<and> resolveLink e net showName episodeTitle = Inr (JsonResponse data st)"
  using assms
  by (auto simp: fetch_def jsonResponse_def Let_def
      split: if_splits json_body.splits property.splits sum.splits)

lemma resolveLink_Success:
  assumes "resolveLink e net showName episodeTitle = Inr (JsonResponse (Success link name appleId t g) st)"
  shows "\<exists>podcast url episodes ep.
      searchApplePodcasts net showName = Inr (Some podcast) \<and> feedUrl podcast = Some url
      \<and> fetchAndParseRSSFeed net url = Inr episodes
      \<and> findEpisode episodes episodeTitle = Some ep
      \<and> name = collectionName podcast \<and> appleId = collectionId podcast
      \<and> t = title ep \<and> g = extractGuid (guid ep)"
  using assms
  by (auto simp: resolveLink_def jsonResponse_def Let_def
      split: sum.splits option.splits if_splits)

lemma resolveLink_EpisodeNotFound:
  assumes "resolveLink e net showName episodeTitle = Inr (JsonResponse (EpisodeNotFound err msg hints) st)"
  shows "\<exists>podcast url episodes.
      searchApplePodcasts net showName = Inr (Some podcast) \<and> feedUrl podcast = Some url
      \<and> fetchAndParseRSSFeed net url = Inr episodes
      \<and> findEpisode episodes episodeTitle = None
      \<and> hints = map title (take 5 episodes)"
  using assms
  by (auto simp: resolveLink_def jsonResponse_def Let_def
      split: sum.splits option.splits if_splits)

lemma fetch_status_200_or_404:
  "fetch e net request = JsonResponse (Success link name appleId t g) st \<Longrightarrow> st = 200"
  "fetch e net request = JsonResponse (EpisodeNotFound err msg hints) st \<Longrightarrow> st = 404"
  by (auto simp: fetch_def resolveLink_def jsonResponse_def Let_def
      split: if_splits json_body.splits property.splits sum.splits option.splits)

text \<open>
  A feed answered with status 503, and a feed whose document has no channel: both end in
  the catch-all of the handler, with status 500.
\<close>

theorem feed_failure_counterexample:
  "\<not> ok (HttpResponse 503 (Inr (example_feed NoItem)))
   \<and> fetch example_engine (example_network 1 (HttpResponse 503 (Inr (example_feed NoItem))))
        (example_request ''Latest Episode'')
      = JsonResponse
          (ErrorMessage ''Internal server error'' ''Failed to fetch RSS feed: 503'') 500
   \<and> fetch example_engine (example_network 1 (HttpResponse 200 (Inr (RSSFeed (Some (Rss None))))))
        (example_request ''Latest Episode'')
      = JsonResponse
          (ErrorMessage ''Internal server error'' ''Invalid RSS feed structure'') 500"
  by (simp add: fetch_def resolveLink_def example_search example_request_def
      example_podcast_fields example_fetch_503 example_fetch_no_channel ok_def jsonResponse_def)

text \<open>
  C1 (amended). For every valid request whose show resolves to a candidate with a feed
  URL: when the feed is answered with a non-success status, or its parsed document lacks
  the channel container, the handler answers \<open>Internal server error\<close> with status 500 and
  the message of the failure (\<open>Failed to fetch RSS feed: <status>\<close>, or
  \<open>Invalid RSS feed structure\<close>).
\<close>

theorem feed_failure_status_500:
  assumes "request_method request = ''POST''"
    and "json request = JsonValue (Str showName) (Str episodeTitle)"
    and "showName \<noteq> []" and "episodeTitle \<noteq> []"
    and "searchApplePodcasts net showName = Inr (Some podcast)"
    and "feedUrl podcast = Some url" and "url \<noteq> []"
    and "feeds net url = Inr response"
  shows "(\<not> ok response \<longrightarrow>
           fetch e net request =
             JsonResponse (ErrorMessage ''Internal server error''
               (''Failed to fetch RSS feed: '' @ natToString (status response))) 500)
    \<and> (ok response \<and> (\<exists>parsed. body response = Inr parsed
            \<and> (rss parsed = None \<or> (\<exists>r. rss parsed = Some r \<and> channel r = None))) \<longrightarrow>
           fetch e net request =
             JsonResponse (ErrorMessage ''Internal server error'' ''Invalid RSS feed structure'') 500)"
  using assms
  by (auto simp: fetch_def resolveLink_def fetchAndParseRSSFeed_def feedItems_def jsonResponse_def)

theorem feed_failure_status_500_witness:
  "fetch example_engine (example_network 1 (HttpResponse 404 (Inl NotAnError))) (example_request ''Pilot'')
      = JsonResponse
          (ErrorMessage ''Internal server error'' ''Failed to fetch RSS feed: 404'') 500
   \<and> fetch example_engine (example_network 1 (HttpResponse 200 (Inr (RSSFeed None)))) (example_request ''Pilot'')
      = JsonResponse
          (ErrorMessage ''Internal server error'' ''Invalid RSS feed structure'') 500"
  using
    feed_failure_status_500[of "example_request ''Pilot''" "''The Daily''" "''Pilot''"
      "example_network 1 (HttpResponse 404 (Inl NotAnError))" example_podcast
      "''https://example.test/feed''" "HttpResponse 404 (Inl NotAnError)" example_engine]
    feed_failure_status_500[of "example_request ''Pilot''" "''The Daily''" "''Pilot''"
      "example_network 1 (HttpResponse 200 (Inr (RSSFeed None)))" example_podcast
      "''https://example.test/feed''" "HttpResponse 200 (Inr (RSSFeed None))" example_engine]
  by (simp add: example_request_def example_search example_podcast_fields example_feeds ok_def)

text \<open>
  An entry whose identifier is the empty string resolves to a success payload with the
  empty identifier and a link that ends after \<open>/episode/\<close>.
\<close>

theorem empty_identifier_counterexample:
  "extractGuid (GuidString []) = []
   \<and> fetch example_engine (example_network 1
         (HttpResponse 200 (Inr (example_feed (SingleItem \<lparr>title = ''Pilot'', guid = GuidString []\<rparr>)))))
        (example_request ''Pilot'')
      = JsonResponse
          (Success ''https://pod.link/1234567890/episode/'' ''The Daily'' 1234567890 ''Pilot'' [])
          200"
  by (simp add: fetch_def resolveLink_def example_search example_request_def
      example_podcast_fields example_fetch_items example_findEpisode_Pilot jsonResponse_def
      example_numberToString toUrlSafeBase64_empty)

text \<open>
  C4 (amended). A resolved episode whose extracted identifier is the empty string is not
  treated as a feed-data error: for every valid request whose show and episode resolve,
  when the extracted identifier is empty the handler answers the success payload with
  status 200, carrying the empty identifier and a link that ends after \<open>/episode/\<close>. So a
  success outcome does not imply a non-empty identifier.
\<close>

theorem empty_identifier_success:
  assumes "request_method request = ''POST''"
    and "json request = JsonValue (Str showName) (Str episodeTitle)"
    and "showName \<noteq> []" and "episodeTitle \<noteq> []"
    and "searchApplePodcasts net showName = Inr (Some podcast)"
    and "feedUrl podcast = Some url" and "url \<noteq> []"
    and "fetchAndParseRSSFeed net url = Inr episodes"
    and "findEpisode episodes episodeTitle = Some episode"
    and "extractGuid (guid episode) = []"
  shows "fetch e net request =
     JsonResponse
       (Success (''https://pod.link/'' @ numberToString e (collectionId podcast) @ ''/episode/'')
          (collectionName podcast) (collectionId podcast) (title episode) [])
       200"
proof -
  have "episodes \<noteq> []" using assms(9) by (auto simp: findEpisode_def)
  then show ?thesis
    using assms
    by (simp add: fetch_def resolveLink_def jsonResponse_def Let_def toUrlSafeBase64_empty)
qed

theorem empty_identifier_success_witness:
  "extractGuid (GuidObject []) = []
   \<and> fetch example_engine (example_network 1
         (HttpResponse 200 (Inr (example_feed (SingleItem \<lparr>title = ''Pilot'', guid = GuidObject []\<rparr>)))))
        (example_request ''Pilot'')
      = JsonResponse
          (Success ''https://pod.link/1234567890/episode/'' ''The Daily'' 1234567890 ''Pilot'' [])
          200"
  using empty_identifier_success[of "example_request ''Pilot''" "''The Daily''" "''Pilot''"
      "example_network 1
         (HttpResponse 200 (Inr (example_feed (SingleItem \<lparr>title = ''Pilot'', guid = GuidObject []\<rparr>))))"
      example_podcast "''https://example.test/feed''"
      "[\<lparr>title = ''Pilot'', guid = GuidObject []\<rparr>]" "\<lparr>title = ''Pilot'', guid = GuidObject []\<rparr>"
      example_engine]
  by (simp add: example_request_def example_search example_podcast_fields example_fetch_items
      example_findEpisode_Pilot example_numberToString)

lemma extractGuid_origin:
  "g = extractGuid v \<Longrightarrow> v = GuidString g \<or> v = GuidObject g"
  by (cases v) simp_all

lemma example_fetch_array:
  "fetchAndParseRSSFeed
     (example_network 1 (HttpResponse 200 (Inr (example_feed (ItemArray entries))))) url
   = Inr entries"
  by (simp add: fetchAndParseRSSFeed_def example_feeds ok_def feedItems_def example_feed_def)

lemma example_findEpisode_six:
  "findEpisode six_episodes ''Ep1'' = Some episode_short"
  "findEpisode six_episodes ''Pilot'' = None"
  by code_simp+

lemma example_six_episodes:
  "six_episodes \<noteq> []"
  "map title (take 5 six_episodes) = [''Ep1'', ''Ep1 Extended'', ''Three'', ''Four'', ''Five'']"
  "length six_episodes = 6"
  by (simp_all add: six_episodes_def episode_short_def episode_long_def episode_titled_def)

text \<open>
  C9. Every success payload carries the name and id of a candidate of the directory's
  result list, the title of an entry of the feed, and the identifier that this entry
  holds, as a plain string or in its \<open>#text\<close> field, each as it is there; every
  \<open>Episode not found\<close> payload carries as hints the titles of the first five episodes of
  the feed (all of them when there are fewer), as they are and in feed order.
\<close>

theorem output_strings_original:
  "(fetch e net request = JsonResponse (Success link name appleId t g) st \<longrightarrow>
      (\<exists>showName episodeTitle response data podcast url episodes ep.
          json request = JsonValue (Str showName) (Str episodeTitle)
          \<and> directory net showName = Inr response \<and> body response = Inr data
          \<and> podcast \<in> set (results data)
          \<and> searchApplePodcasts net showName = Inr (Some podcast)
          \<and> feedUrl podcast = Some url
          \<and> fetchAndParseRSSFeed net url = Inr episodes \<and> ep \<in> set episodes
          \<and> findEpisode episodes episodeTitle = Some ep
          \<and> name = collectionName podcast \<and> appleId = collectionId podcast
          \<and> t = title ep \<and> (guid ep = GuidString g \<or> guid ep = GuidObject g)))
   \<and> (fetch e net request = JsonResponse (EpisodeNotFound err msg hints) st \<longrightarrow>
      (\<exists>showName episodeTitle podcast url episodes.
          json request = JsonValue (Str showName) (Str episodeTitle)
          \<and> searchApplePodcasts net showName = Inr (Some podcast) \<and> feedUrl podcast = Some url
          \<and> fetchAndParseRSSFeed net url = Inr episodes
          \<and> hints = map title (take 5 episodes)
          \<and> length hints = min 5 (length episodes)))"
proof (intro conjI impI)
  assume a: "fetch e net request = JsonResponse (Success link name appleId t g) st"
  then have "st = 200" by (rule fetch_status_200_or_404)
  with a obtain showName episodeTitle where
    j: "json request = JsonValue (Str showName) (Str episodeTitle)" and
    r: "resolveLink e net showName episodeTitle
          = Inr (JsonResponse (Success link name appleId t g) st)"
    using fetch_JsonResponse_origin[of e net request "Success link name appleId t g" st] by auto
  from resolveLink_Success[OF r] obtain podcast url episodes ep where
    p: "searchApplePodcasts net showName = Inr (Some podcast)" "feedUrl podcast = Some url"
      "fetchAndParseRSSFeed net url = Inr episodes" "findEpisode episodes episodeTitle = Some ep"
      "name = collectionName podcast" "appleId = collectionId podcast"
      "t = title ep" "g = extractGuid (guid ep)"
    by blast
  from searchApplePodcasts_mem[OF p(1)] obtain response data where
    d: "directory net showName = Inr response" "body response = Inr data"
      "podcast \<in> set (results data)"
    by blast
  have m: "ep \<in> set episodes" using p(4) by (rule findEpisode_mem)
  have o: "guid ep = GuidString g \<or> guid ep = GuidObject g"
    using p(8) by (rule extractGuid_origin)
  from j p(1-7) d m o show "\<exists>showName episodeTitle response data podcast url episodes ep.
          json request = JsonValue (Str showName) (Str episodeTitle)
          \<and> directory net showName = Inr response \<and> body response = Inr data
          \<and> podcast \<in> set (results data)
          \<and> searchApplePodcasts net showName = Inr (Some podcast)
          \<and> feedUrl podcast = Some url
          \<and> fetchAndParseRSSFeed net url = Inr episodes \<and> ep \<in> set episodes
          \<and> findEpisode episodes episodeTitle = Some ep
          \<and> name = collectionName podcast \<and> appleId = collectionId podcast
          \<and> t = title ep \<and> (guid ep = GuidString g \<or> guid ep = GuidObject g)"
    by blast
next
  assume a: "fetch e net request = JsonResponse (EpisodeNotFound err msg hints) st"
  then have "st = 404" by (rule fetch_status_200_or_404)
  with a obtain showName episodeTitle where
    j: "json request = JsonValue (Str showName) (Str episodeTitle)" and
    r: "resolveLink e net showName episodeTitle
          = Inr (JsonResponse (EpisodeNotFound err msg hints) st)"
    using fetch_JsonResponse_origin[of e net request "EpisodeNotFound err msg hints" st] by auto
  from resolveLink_EpisodeNotFound[OF r] obtain podcast url episodes where
    p: "searchApplePodcasts net showName = Inr (Some podcast)" "feedUrl podcast = Some url"
      "fetchAndParseRSSFeed net url = Inr episodes" "hints = map title (take 5 episodes)"
    by blast
  have "length hints = min 5 (length episodes)" using p(4) by (simp add: min.commute)
  with j p show "\<exists>showName episodeTitle podcast url episodes.
          json request = JsonValue (Str showName) (Str episodeTitle)
          \<and> searchApplePodcasts net showName = Inr (Some podcast) \<and> feedUrl podcast = Some url
          \<and> fetchAndParseRSSFeed net url = Inr episodes
          \<and> hints = map title (take 5 episodes)
          \<and> length hints = min 5 (length episodes)"
    by blast
qed

theorem output_strings_original_witness:
  "fetch example_engine
        (example_network 1 (HttpResponse 200 (Inr (example_feed (ItemArray six_episodes)))))
        (example_request ''Ep1'')
      = JsonResponse
          (Success ''https://pod.link/1234567890/episode/Zy1zaG9ydA'' ''The Daily'' 1234567890
             ''Ep1'' ''g-short'')
          200
   \<and> ''The Daily'' \<in> collectionName ` set [example_podcast]
   \<and> GuidObject ''g-short'' \<in> guid ` set six_episodes
   \<and> fetch example_engine
        (example_network 1 (HttpResponse 200 (Inr (example_feed (ItemArray six_episodes)))))
        (example_request ''Pilot'')
      = JsonResponse
          (EpisodeNotFound ''Episode not found''
             (''No episode found matching '' @ quote @ ''Pilot'' @ quote @ '' in '' @ quote
                @ ''The Daily'' @ quote)
             [''Ep1'', ''Ep1 Extended'', ''Three'', ''Four'', ''Five''])
          404
   \<and> length [''Ep1'', ''Ep1 Extended'', ''Three'', ''Four'', ''Five'']
       = min 5 (length six_episodes)"
proof -
  let ?net = "example_network 1 (HttpResponse 200 (Inr (example_feed (ItemArray six_episodes))))"
  let ?link = "''https://pod.link/1234567890/episode/Zy1zaG9ydA''"
  let ?msg = "''No episode found matching '' @ quote @ ''Pilot'' @ quote @ '' in '' @ quote
                @ ''The Daily'' @ quote"
  let ?hints = "[''Ep1'', ''Ep1 Extended'', ''Three'', ''Four'', ''Five'']"
  have s: "fetch example_engine ?net (example_request ''Ep1'')
      = JsonResponse (Success ?link ''The Daily'' 1234567890 ''Ep1'' ''g-short'') 200"
    by (simp add: fetch_def resolveLink_def example_search example_request_def
      example_podcast_fields example_fetch_array example_findEpisode_six example_six_episodes
      jsonResponse_def episode_short_def example_numberToString example_toUrlSafeBase64)
  have f: "fetch example_engine ?net (example_request ''Pilot'')
      = JsonResponse (EpisodeNotFound ''Episode not found'' ?msg ?hints) 404"
    by (simp add: fetch_def resolveLink_def example_search example_request_def
      example_podcast_fields example_fetch_array example_findEpisode_six example_six_episodes
      jsonResponse_def quote_def)
  from output_strings_original[of example_engine ?net "example_request ''Ep1''" ?link
      "''The Daily''" 1234567890 "''Ep1''" "''g-short''" 200] s
  obtain showName episodeTitle podcast url episodes ep where
    a: "json (example_request ''Ep1'') = JsonValue (Str showName) (Str episodeTitle)"
      "searchApplePodcasts ?net showName = Inr (Some podcast)"
      "feedUrl podcast = Some url"
      "fetchAndParseRSSFeed ?net url = Inr episodes"
      "ep \<in> set episodes" "findEpisode episodes episodeTitle = Some ep"
      "''The Daily'' = collectionName podcast"
      "guid ep = GuidString ''g-short'' \<or> guid ep = GuidObject ''g-short''"
    by blast
  from a(1) have n: "showName = ''The Daily''" "episodeTitle = ''Ep1''"
    by (simp_all add: example_request_def)
  from a(2) n have "podcast = example_podcast" by (simp add: example_search)
  with a(7) have o1: "''The Daily'' \<in> collectionName ` set [example_podcast]" by simp
  from a(4) have e6: "episodes = six_episodes" by (simp add: example_fetch_array)
  with a(6) n have "ep = episode_short" by (simp add: example_findEpisode_six)
  with a(8) have "guid ep = GuidObject ''g-short''" by (simp add: episode_short_def)
  with a(5) e6 have o2: "GuidObject ''g-short'' \<in> guid ` set six_episodes" by force
  from output_strings_original[of example_engine ?net "example_request ''Pilot''" _ _ _ _ _ 404
      "''Episode not found''" ?msg ?hints] f
  obtain url' episodes' where
    b: "fetchAndParseRSSFeed ?net url' = Inr episodes'"
      "length ?hints = min 5 (length episodes')"
    by blast
  from b(1) have "episodes' = six_episodes" by (simp add: example_fetch_array)
  with b(2) have h: "length ?hints = min 5 (length six_episodes)" by simp
  show ?thesis using s o1 o2 f h by blast
qed

end
